theory Spec2Isabelle
  imports Main
begin

section \<open>The Supabase tables\<close>

text \<open>
  The Python service keeps its state in two tables. A row of \<open>chat_messages\<close> carries the
  column \<open>processed_into_memory\<close> that the migration adds with default \<open>false\<close>. Strings are
  Python \<open>str\<close>, timestamps are abstracted to natural numbers, and a memory (a JSON
  object produced by the language model) is kept as its JSON text.
\<close>

type_synonym memory = string

record chat_message =
  msg_id :: nat
  session_id :: string
  role :: string
  content :: string
  created_at :: nat
  processed_into_memory :: bool

text \<open>
  A row of \<open>memories\<close>. The execution summary inserts one row per memory, with the columns
  \<open>memory_type\<close> and \<open>content\<close>; the copy-paste snippets insert one row per run, with the three
  JSON lists and \<open>source_message_ids\<close> of the migration. A column a writer leaves out holds
  its default.
\<close>

record memory_row =
  mem_user_id :: string
  mem_session_id :: string
  memory_type :: "string option"
  mem_content :: "memory option"
  procedural_memories :: "memory list"
  semantic_memories :: "memory list"
  episodic_memories :: "memory list"
  source_message_ids :: "nat list"
  mem_created_at :: nat

record database =
  chat_messages :: "chat_message list"
  memories :: "memory_row list"

datatype py_error = ValueError | TimeoutError | APIError | OtherException

subsection \<open>Queries\<close>

text \<open>
  \<open>table('chat_messages').select('id', count='exact').eq('session_id', sid)\<close>: the rows of
  one session.
\<close>

definition session_messages :: "database \<Rightarrow> string \<Rightarrow> chat_message list" where
  "session_messages d sid = filter (\<lambda>m. session_id m = sid) (chat_messages d)"

text \<open>
  \<open>.eq('session_id', sid).eq('processed_into_memory', False).order('created_at', desc=False).limit(n)\<close>:
  the unprocessed rows of the session in ascending order of \<open>created_at\<close>, cut after
  \<open>n\<close> rows.
\<close>

definition select_unprocessed :: "database \<Rightarrow> string \<Rightarrow> nat \<Rightarrow> chat_message list" where
  "select_unprocessed d sid n =
     take n (sort_key created_at
       (filter (\<lambda>m. session_id m = sid \<and> processed_into_memory m = False) (chat_messages d)))"

text \<open>\<open>.update({'processed_into_memory': True}).in_('id', ids)\<close>.\<close>

definition mark_processed :: "nat list \<Rightarrow> database \<Rightarrow> database" where
  "mark_processed ids d =
     d\<lparr>chat_messages :=
         map (\<lambda>m. if msg_id m \<in> set ids then m\<lparr>processed_into_memory := True\<rparr> else m)
           (chat_messages d)\<rparr>"

text \<open>\<open>table('memories').insert(row)\<close>.\<close>

definition insert_memory :: "memory_row \<Rightarrow> database \<Rightarrow> database" where
  "insert_memory r d = d\<lparr>memories := memories d @ [r]\<rparr>"

text \<open>
  \<open>table('memories').select('*').eq('session_id', sid).order('created_at', desc=True)\<close>,
  newest first.
\<close>

definition select_memories :: "database \<Rightarrow> string \<Rightarrow> memory_row list" where
  "select_memories d sid =
     rev (sort_key mem_created_at (filter (\<lambda>r. mem_session_id r = sid) (memories d)))"

section \<open>memory\_architecture.py\<close>

subsection \<open>\<open>_get_llm_response\<close>: the retry loop\<close>

text \<open>
  What \<open>self.model.generate_content(prompt)\<close> can hand back: a falsy response, an object
  with a \<open>text\<close> attribute, one with only a \<open>content\<close> attribute, or one with neither.
  What the stripping, the two regular expressions and \<open>json.loads\<close> make of the response
  text: a decode error, a list, or some other JSON value.
\<close>

datatype llm_response = NoResponse | Text string | Content string | Unstructured

datatype parsed = JSONDecodeError | JsonList "memory list" | JsonOther

text \<open>
  The model answers each attempt on its own (it is a remote service), so
  \<open>generate_content\<close> takes the attempt number; it may raise.
\<close>

record llm =
  generate_content :: "nat \<Rightarrow> string \<Rightarrow> py_error + llm_response"
  json_loads :: "string \<Rightarrow> parsed"

text \<open>
  One pass of the loop body decides between returning, raising and going round again
  after \<open>time.sleep(2 ** attempt)\<close>.
\<close>

datatype attempt_result = Return "memory list" | Raise py_error | Retry nat

definition parse_attempt :: "llm \<Rightarrow> nat \<Rightarrow> nat \<Rightarrow> string \<Rightarrow> attempt_result" where
  "parse_attempt m max_retries attempt response_text =
     (case json_loads m response_text of
        JsonList parsed_response \<Rightarrow> Return parsed_response
      | JsonOther \<Rightarrow>
          if attempt < max_retries - 1 then Retry (2 ^ attempt) else Return []
      | JSONDecodeError \<Rightarrow>
          if attempt = max_retries - 1 then Raise ValueError else Retry (2 ^ attempt))"

definition attempt_once :: "llm \<Rightarrow> string \<Rightarrow> nat \<Rightarrow> nat \<Rightarrow> attempt_result" where
  "attempt_once m prompt max_retries attempt =
     (case generate_content m attempt prompt of
        Inl e \<Rightarrow> if attempt = max_retries - 1 then Raise ValueError else Retry (2 ^ attempt)
      | Inr NoResponse \<Rightarrow>
          if attempt < max_retries - 1 then Retry (2 ^ attempt) else Raise ValueError
      | Inr Unstructured \<Rightarrow>
          if attempt < max_retries - 1 then Retry (2 ^ attempt) else Raise ValueError
      | Inr (Text t) \<Rightarrow> parse_attempt m max_retries attempt t
      | Inr (Content t) \<Rightarrow> parse_attempt m max_retries attempt t)"

text \<open>
  \<open>for attempt in range(max_retries)\<close>, over the attempts still to come; the statement
  after the loop raises. The second component collects the seconds slept.
\<close>

fun attempts :: "llm \<Rightarrow> string \<Rightarrow> nat \<Rightarrow> nat list \<Rightarrow> (py_error + memory list) \<times> nat list" where
  "attempts m prompt max_retries [] = (Inl ValueError, [])"
| "attempts m prompt max_retries (attempt # rest) =
     (case attempt_once m prompt max_retries attempt of
        Return r \<Rightarrow> (Inr r, [])
      | Raise e \<Rightarrow> (Inl e, [])
      | Retry seconds \<Rightarrow>
          (case attempts m prompt max_retries rest of (r, slept) \<Rightarrow> (r, seconds # slept)))"

definition get_llm_response :: "llm \<Rightarrow> string \<Rightarrow> nat \<Rightarrow> (py_error + memory list) \<times> nat list" where
  "get_llm_response m prompt max_retries = attempts m prompt max_retries [0..<max_retries]"

subsection \<open>\<open>extract_all_memories_parallel\<close>\<close>

text \<open>
  The dictionary handed to the memory system: \<open>trigger_memory_extraction\<close> builds it with
  the keys \<open>data_type\<close>, \<open>user_id\<close>, \<open>session_id\<close> and \<open>chat_history\<close> (the snippets add
  the activities as \<open>context\<close>); a key may be absent. The history entries of the
  execution summary are the dictionaries \<open>fetch_last_n_messages\<close> builds from the rows,
  with their ids; those of the snippets have \<open>role\<close>, \<open>content\<close> and \<open>timestamp\<close> only.
\<close>

record chat_history_entry =
  entry_id :: nat
  entry_role :: string
  entry_content :: string
  timestamp :: nat

record history_item =
  item_role :: string
  item_content :: string
  item_timestamp :: nat

record 'h input_dict =
  data_type :: "string option"
  user_id :: "string option"
  in_session_id :: "string option"
  chat_history :: "'h list"
  activities :: "string list"

text \<open>\<open>input_data: Union[Dict, str]\<close>; anything else is refused.\<close>

datatype 'h input_data = JsonString string | Dictionary "'h input_dict" | OtherValue

record memory_summary =
  total_procedural :: nat
  total_semantic :: nat
  total_episodic :: nat
  total_memories :: nat

record memory_lists =
  procedural :: "memory list"
  semantic :: "memory list"
  episodic :: "memory list"

record metadata =
  input_data_type :: string
  processing_model :: string
  version :: string
  extraction_method :: string

record memories_output =
  out_data_type :: string
  out_user_id :: string
  out_session_id :: string
  processed_at :: nat
  summary :: memory_summary
  memories_of :: memory_lists
  meta :: metadata

datatype memory_kind = Procedural | Semantic | Episodic

text \<open>
  The parts of \<open>UniversalMemorySystem\<close> the method calls and the repository's files do not
  hold: the JSON reader, the data type detection, the handlers that format the input, and
  the three extractors (each of which may raise). \<open>'f\<close> is the type of formatted data.
\<close>

record ('h, 'f) memory_parts =
  loads :: "string \<Rightarrow> 'h input_data option"
  detect_data_type :: "'h input_dict \<Rightarrow> string"
  data_handlers :: "string \<Rightarrow> ('h input_dict \<Rightarrow> 'f) option"
  handle_general_data :: "'h input_dict \<Rightarrow> 'f"
  extract_procedural_memory :: "'f \<Rightarrow> string \<Rightarrow> py_error + memory list"
  extract_semantic_memory :: "'f \<Rightarrow> string \<Rightarrow> py_error + memory list"
  extract_episodic_memory :: "'f \<Rightarrow> string \<Rightarrow> py_error + memory list"

definition max_workers :: nat where
  "max_workers = 3"

text \<open>
  \<open>ThreadPoolExecutor(max_workers=3)\<close>, as far as the method depends on the standard
  library's pool: the tasks a worker thread is running, the tasks waiting in the work
  queue, and the tasks that have ended, in the order they ended. A task is named by its
  position in \<open>future_to_type\<close>. A task submitted while fewer than \<open>workers\<close> tasks are
  running goes to a worker at once; otherwise it waits until a running task ends.
\<close>

record executor =
  workers :: nat
  running :: "nat list"
  waiting :: "nat list"
  completed :: "nat list"

definition ThreadPoolExecutor :: "nat \<Rightarrow> executor" where
  "ThreadPoolExecutor n = \<lparr>workers = n, running = [], waiting = [], completed = []\<rparr>"

definition submit :: "nat \<Rightarrow> executor \<Rightarrow> executor" where
  "submit task ex =
     (if length (running ex) < workers ex then ex\<lparr>running := running ex @ [task]\<rparr>
      else ex\<lparr>waiting := waiting ex @ [task]\<rparr>)"

text \<open>
  The running task \<open>task\<close> ends (by returning or by raising): its worker takes the next
  waiting task, if there is one.
\<close>

definition complete :: "nat \<Rightarrow> executor \<Rightarrow> executor" where
  "complete task ex =
     (if task \<in> set (running ex) then
        (case waiting ex of
           [] \<Rightarrow> ex\<lparr>running := remove1 task (running ex), completed := completed ex @ [task]\<rparr>
         | next_task # rest \<Rightarrow>
             ex\<lparr>running := remove1 task (running ex) @ [next_task], waiting := rest,
                completed := completed ex @ [task]\<rparr>)
      else ex)"

text \<open>
  The pool after the \<open>n\<close> calls of \<open>executor.submit\<close> in the dictionary display, and the
  order in which the futures complete under a schedule, the sequence of the tasks'
  ends within the timeout.
\<close>

definition dispatch :: "nat \<Rightarrow> executor" where
  "dispatch n = fold submit [0..<n] (ThreadPoolExecutor max_workers)"

definition completion_order :: "nat \<Rightarrow> nat list \<Rightarrow> nat list" where
  "completion_order n schedule = completed (fold complete schedule (dispatch n))"

text \<open>
  \<open>future_to_type\<close>: the three tasks submitted to the executor, each with the name of its
  memory type; a future is represented by what its call returns or raises.
\<close>

definition future_to_type ::
  "('h, 'f) memory_parts \<Rightarrow> 'f \<Rightarrow> string \<Rightarrow> ((py_error + memory list) \<times> memory_kind) list" where
  "future_to_type p formatted_data dt =
     [(extract_procedural_memory p formatted_data dt, Procedural),
      (extract_semantic_memory p formatted_data dt, Semantic),
      (extract_episodic_memory p formatted_data dt, Episodic)]"

definition assign :: "memory_kind \<Rightarrow> memory list \<Rightarrow> memory_lists \<Rightarrow> memory_lists" where
  "assign kind result acc =
     (case kind of
        Procedural \<Rightarrow> acc\<lparr>procedural := result\<rparr>
      | Semantic \<Rightarrow> acc\<lparr>semantic := result\<rparr>
      | Episodic \<Rightarrow> acc\<lparr>episodic := result\<rparr>)"

text \<open>
  \<open>for future in as_completed(future_to_type, timeout=120)\<close>: the futures arrive in the
  order they complete, given as positions in \<open>future_to_type\<close>. A future that raised
  ends the loop with its exception; when the futures that completed in time are used up
  and one of the submitted futures has not arrived, the iterator raises \<open>TimeoutError\<close>.
\<close>

fun as_completed ::
  "((py_error + memory list) \<times> memory_kind) list \<Rightarrow> nat list \<Rightarrow> nat list \<Rightarrow> memory_lists \<Rightarrow>
   py_error + memory_lists" where
  "as_completed futures [] seen acc =
     (if list_all (\<lambda>i. i \<in> set seen) [0..<length futures] then Inr acc else Inl TimeoutError)"
| "as_completed futures (i # order) seen acc =
     (if i < length futures then
        (case futures ! i of
           (Inl e, kind) \<Rightarrow> Inl e
         | (Inr result, kind) \<Rightarrow>
             as_completed futures order (i # seen) (assign kind result acc))
      else as_completed futures order seen acc)"

text \<open>
  The method itself. \<open>schedule\<close> is the sequence in which the submitted tasks end,
  \<open>clock\<close> the time of the call and \<open>fallback_session\<close> the session name made from the
  clock.
\<close>

definition build_output ::
  "'h input_dict \<Rightarrow> string \<Rightarrow> nat \<Rightarrow> string \<Rightarrow> memory_lists \<Rightarrow> memories_output" where
  "build_output input_data dt clock fallback_session ms =
     \<lparr>out_data_type = dt,
      out_user_id = (case user_id input_data of None \<Rightarrow> ''unknown'' | Some u \<Rightarrow> u),
      out_session_id = (case in_session_id input_data of None \<Rightarrow> fallback_session | Some s \<Rightarrow> s),
      processed_at = clock,
      summary =
        \<lparr>total_procedural = length (procedural ms),
         total_semantic = length (semantic ms),
         total_episodic = length (episodic ms),
         total_memories = length (procedural ms) + length (semantic ms) + length (episodic ms)\<rparr>,
      memories_of =
        \<lparr>procedural = procedural ms, semantic = semantic ms, episodic = episodic ms\<rparr>,
      meta =
        \<lparr>input_data_type = dt, processing_model = ''gemini-1.5-flash'', version = ''2.0'',
         extraction_method = ''parallel_threading''\<rparr>\<rparr>"

definition extract_from_dict ::
  "('h, 'f) memory_parts \<Rightarrow> nat list \<Rightarrow> nat \<Rightarrow> string \<Rightarrow> 'h input_dict \<Rightarrow>
   py_error + memories_output" where
  "extract_from_dict p schedule clock fallback_session input_data =
     (let dt = (case data_type input_data of
                  None \<Rightarrow> detect_data_type p input_data | Some t \<Rightarrow> t);
          formatted_data = (case data_handlers p dt of
                  Some handler \<Rightarrow> handler input_data
                | None \<Rightarrow> handle_general_data p input_data);
          futures = future_to_type p formatted_data dt
      in case as_completed futures (completion_order (length futures) schedule) []
                \<lparr>procedural = [], semantic = [], episodic = []\<rparr> of
           Inl e \<Rightarrow> Inl e
         | Inr ms \<Rightarrow> Inr (build_output input_data dt clock fallback_session ms))"

definition extract_all_memories_parallel ::
  "('h, 'f) memory_parts \<Rightarrow> nat list \<Rightarrow> nat \<Rightarrow> string \<Rightarrow> 'h input_data \<Rightarrow>
   py_error + memories_output" where
  "extract_all_memories_parallel p schedule clock fallback_session input_data =
     (case input_data of
        JsonString s \<Rightarrow>
          (case loads p s of
             None \<Rightarrow> Inl ValueError
           | Some (Dictionary inp) \<Rightarrow> extract_from_dict p schedule clock fallback_session inp
           | Some other \<Rightarrow> Inl ValueError)
      | Dictionary inp \<Rightarrow> extract_from_dict p schedule clock fallback_session inp
      | OtherValue \<Rightarrow> Inl ValueError)"

section \<open>workflow.py\<close>

subsection \<open>The execution summary: fetching the window and running an extraction\<close>

text \<open>
  What one call of a workflow method finds around it: whether \<open>self.supabase\<close> exists,
  whether the fetch of the window raises, the memory system (\<open>None\<close> when its
  initialisation failed; otherwise what \<open>process_data_to_memories\<close> answers or raises),
  which of the run's inserts raise (by their position in the run), whether the update
  raises, whether the query on \<open>memories\<close> raises, and the clock.
\<close>

record workflow_env =
  supabase :: bool
  fetch_raises :: bool
  memory_system :: "(chat_history_entry input_dict \<Rightarrow> py_error + memories_output) option"
  insert_raises :: "nat \<Rightarrow> bool"
  update_raises :: bool
  select_memories_raises :: bool
  now :: nat

definition to_entry :: "chat_message \<Rightarrow> chat_history_entry" where
  "to_entry row =
     \<lparr>entry_id = msg_id row, entry_role = role row, entry_content = content row,
      timestamp = created_at row\<rparr>"

text \<open>\<open>fetch_last_n_messages(self, session_id, n=15)\<close>.\<close>

definition fetch_last_n_messages ::
  "workflow_env \<Rightarrow> database \<Rightarrow> string \<Rightarrow> nat \<Rightarrow> chat_history_entry list" where
  "fetch_last_n_messages w d sid n =
     (if \<not> supabase w \<or> sid = [] then []
      else if fetch_raises w then []
      else map to_entry (select_unprocessed d sid n))"

text \<open>
  The save loop: for each memory type in the order procedural, semantic, episodic, and
  each memory of that type, one insert inside its own \<open>try\<close>; a failed insert is logged
  and the loop goes on. \<open>k\<close> is the position of the insert in the run; the second
  component of the result is \<open>memories_saved\<close>.
\<close>

definition memory_record :: "workflow_env \<Rightarrow> string \<Rightarrow> string \<Rightarrow> string \<Rightarrow> memory \<Rightarrow> memory_row" where
  "memory_record w uid sid mtype m =
     \<lparr>mem_user_id = uid, mem_session_id = sid, memory_type = Some mtype,
      mem_content = Some m, procedural_memories = [], semantic_memories = [],
      episodic_memories = [], source_message_ids = [], mem_created_at = now w\<rparr>"

fun save_memories ::
  "workflow_env \<Rightarrow> string \<Rightarrow> string \<Rightarrow> (string \<times> memory) list \<Rightarrow> nat \<Rightarrow> database \<Rightarrow> database \<times> nat" where
  "save_memories w uid sid [] k d = (d, 0)"
| "save_memories w uid sid ((mtype, m) # rest) k d =
     (if insert_raises w k then save_memories w uid sid rest (Suc k) d
      else (case save_memories w uid sid rest (Suc k) (insert_memory (memory_record w uid sid mtype m) d)
            of (d', saved) \<Rightarrow> (d', Suc saved)))"

definition typed_memories :: "memory_lists \<Rightarrow> (string \<times> memory) list" where
  "typed_memories ms =
     map (Pair ''procedural'') (procedural ms) @
     map (Pair ''semantic'') (semantic ms) @
     map (Pair ''episodic'') (episodic ms)"

text \<open>
  The part of \<open>trigger_memory_extraction\<close> after the fetch, on the store as it is when
  the thread gets there: nothing for an empty window or a missing memory system; the
  extraction, whose exception the outer handler logs; the save loop; then one update
  marking the window's ids, whose exception is logged too. The result is the store and
  the calls made to the memory system.
\<close>

definition persist_window ::
  "workflow_env \<Rightarrow> chat_history_entry list \<Rightarrow> string \<Rightarrow> string \<Rightarrow> database \<Rightarrow>
   database \<times> chat_history_entry input_dict list" where
  "persist_window w messages sid uid d =
     (if messages = [] then (d, [])
      else case memory_system w of
        None \<Rightarrow> (d, [])
      | Some process_data_to_memories \<Rightarrow>
          (let chat_data = \<lparr>data_type = Some ''chat'', user_id = Some uid, in_session_id = Some sid,
                            chat_history = messages, activities = []\<rparr>
           in case process_data_to_memories chat_data of
                Inl e \<Rightarrow> (d, [chat_data])
              | Inr result \<Rightarrow>
                  (case save_memories w uid sid (typed_memories (memories_of result)) 0 d of
                     (d', memories_saved) \<Rightarrow>
                       (let message_ids = map entry_id messages
                        in if message_ids \<noteq> [] \<and> \<not> update_raises w
                           then (mark_processed message_ids d', [chat_data])
                           else (d', [chat_data])))))"

text \<open>\<open>trigger_memory_extraction(self, session_id, user_id)\<close>.\<close>

definition trigger_memory_extraction ::
  "workflow_env \<Rightarrow> database \<Rightarrow> string \<Rightarrow> string \<Rightarrow> database \<times> chat_history_entry input_dict list" where
  "trigger_memory_extraction w d sid uid =
     persist_window w (fetch_last_n_messages w d sid 15) sid uid d"

text \<open>
  The window the documentation names (\<open>MESSAGES_TO_PROCESS = 15  # last N messages\<close>):
  the last \<open>n\<close> unprocessed messages of the session, that is the \<open>n\<close> most recent ones,
  oldest first.
\<close>

definition last_n_unprocessed :: "database \<Rightarrow> string \<Rightarrow> nat \<Rightarrow> chat_message list" where
  "last_n_unprocessed d sid n =
     (let rows = sort_key created_at
        (filter (\<lambda>m. session_id m = sid \<and> processed_into_memory m = False) (chat_messages d))
      in drop (length rows - n) rows)"

subsection \<open>The execution summary: memories in the analyst's prompt\<close>

text \<open>The dictionary \<open>{'procedural': [], 'semantic': [], 'episodic': []}\<close> of rows.\<close>

record session_memories =
  procedural_rows :: "memory_row list"
  semantic_rows :: "memory_row list"
  episodic_rows :: "memory_row list"

definition no_memories :: session_memories where
  "no_memories = \<lparr>procedural_rows = [], semantic_rows = [], episodic_rows = []\<rparr>"

text \<open>
  The loop \<open>for row in response.data\<close>: a row goes to the list of its \<open>memory_type\<close> when
  that is one of the three keys.
\<close>

fun group_rows :: "memory_row list \<Rightarrow> session_memories \<Rightarrow> session_memories" where
  "group_rows [] g = g"
| "group_rows (row # rows) g =
     group_rows rows
       (if memory_type row = Some ''procedural'' then g\<lparr>procedural_rows := procedural_rows g @ [row]\<rparr>
        else if memory_type row = Some ''semantic'' then g\<lparr>semantic_rows := semantic_rows g @ [row]\<rparr>
        else if memory_type row = Some ''episodic'' then g\<lparr>episodic_rows := episodic_rows g @ [row]\<rparr>
        else g)"

text \<open>\<open>fetch_session_memories(self, session_id)\<close>.\<close>

definition fetch_session_memories :: "workflow_env \<Rightarrow> database \<Rightarrow> string \<Rightarrow> session_memories" where
  "fetch_session_memories w d sid =
     (if \<not> supabase w \<or> sid = [] then no_memories
      else if select_memories_raises w then no_memories
      else group_rows (select_memories d sid) no_memories)"

text \<open>Python's \<open>str\<close> of a non-negative integer, as an f-string renders it.\<close>

fun str_of_nat :: "nat \<Rightarrow> string" where
  "str_of_nat n =
     (if n < 10 then [''0123456789'' ! n]
      else str_of_nat (n div 10) @ [''0123456789'' ! (n mod 10)])"

definition newline :: char where
  "newline = CHR 0x0A"

definition memory_count :: "session_memories \<Rightarrow> nat" where
  "memory_count g = length (procedural_rows g) + length (semantic_rows g) + length (episodic_rows g)"

text \<open>
  \<open>memory_context\<close>: empty without memories, otherwise the total and one line per
  category with the number of its memories. (\<open>if session_memories\<close> holds for a
  dictionary with three keys.)
\<close>

definition memory_context :: "session_memories \<Rightarrow> string" where
  "memory_context g =
     (if memory_count g > 0 then
        [newline, newline] @ ''SESSION MEMORIES ('' @ str_of_nat (memory_count g) @ '' total):'' @ [newline] @
        ''- Procedural: '' @ str_of_nat (length (procedural_rows g)) @ '' skills/techniques learned'' @ [newline] @
        ''- Semantic: '' @ str_of_nat (length (semantic_rows g)) @ '' facts/preferences'' @ [newline] @
        ''- Episodic: '' @ str_of_nat (length (episodic_rows g)) @ '' past experiences'' @ [newline]
      else [])"

text \<open>
  The state of a chat turn as \<open>psychological_analyst\<close> reads it, with the context strings
  the method has computed before, and the rest of the prompt, which the repository's
  files leave out.
\<close>

record analyst_state =
  state_session_id :: "string option"
  user_message :: string
  conversation_context :: string
  activities_context :: string
  voice_context :: string
  rest_of_prompt :: string

definition analyst_memories :: "workflow_env \<Rightarrow> database \<Rightarrow> analyst_state \<Rightarrow> session_memories" where
  "analyst_memories w d state =
     (case state_session_id state of
        None \<Rightarrow> no_memories
      | Some sid \<Rightarrow> if sid \<noteq> [] then fetch_session_memories w d sid else no_memories)"

definition combined_prompt :: "workflow_env \<Rightarrow> database \<Rightarrow> analyst_state \<Rightarrow> string" where
  "combined_prompt w d state =
     ''Analyze this user'' @ [CHR 0x27] @ ''s mental health state for Indian youth (16-25 years).'' @
     [newline, newline] @ ''User'' @ [CHR 0x27] @ ''s message: '' @ [CHR 0x22] @ user_message state @ [CHR 0x22] @
     [newline, newline] @ ''Recent context: '' @ take 500 (conversation_context state) @
     [newline, newline] @ ''Activities: '' @ activities_context state @ voice_context state @
     memory_context (analyst_memories w d state) @
     [newline, newline] @ rest_of_prompt state"

subsection \<open>The copy-paste snippets\<close>

text \<open>
  The same run as the snippets write it: the window is cut after 20 rows, the memories of
  a run go into one row, and no exception is swallowed.
\<close>

record snippet_env =
  credentials :: bool
  select_raises :: bool
  user_activities :: "py_error + string list"
  snippet_memory_system :: "(history_item input_dict \<Rightarrow> py_error + memories_output) option"
  snippet_insert_raises :: bool
  update_raises_at :: "nat \<Rightarrow> bool"
  snippet_now :: nat

definition to_item :: "chat_message \<Rightarrow> history_item" where
  "to_item msg = \<lparr>item_role = role msg, item_content = content msg, item_timestamp = created_at msg\<rparr>"

text \<open>\<open>for msg_id in message_ids\<close>: one update per id; the first that raises ends the run.\<close>

fun mark_each :: "(nat \<Rightarrow> bool) \<Rightarrow> nat list \<Rightarrow> nat \<Rightarrow> database \<Rightarrow> database \<times> py_error option" where
  "mark_each raises [] k d = (d, None)"
| "mark_each raises (i # ids) k d =
     (if raises k then (d, Some APIError) else mark_each raises ids (Suc k) (mark_processed [i] d))"

text \<open>
  \<open>trigger_memory_extraction(self, state)\<close> of the snippets: the store it leaves and the
  exception it raises, if any.
\<close>

definition trigger_memory_extraction_snippet ::
  "snippet_env \<Rightarrow> database \<Rightarrow> string \<Rightarrow> string \<Rightarrow> database \<times> py_error option" where
  "trigger_memory_extraction_snippet e d sid uid =
     (if \<not> credentials e then (d, None)
      else if select_raises e then (d, Some APIError)
      else let messages = select_unprocessed d sid 20 in
        if messages = [] then (d, None)
        else case user_activities e of
          Inl err \<Rightarrow> (d, Some err)
        | Inr acts \<Rightarrow>
            (case snippet_memory_system e of
               None \<Rightarrow> (d, None)
             | Some extract \<Rightarrow>
                 (case extract \<lparr>data_type = Some ''chat'', user_id = Some uid, in_session_id = Some sid,
                                chat_history = map to_item messages, activities = acts\<rparr> of
                    Inl err \<Rightarrow> (d, Some err)
                  | Inr memories_output \<Rightarrow>
                      if snippet_insert_raises e then (d, Some APIError)
                      else mark_each (update_raises_at e) (map msg_id messages) 0
                             (insert_memory
                                \<lparr>mem_user_id = uid, mem_session_id = sid, memory_type = None,
                                 mem_content = None,
                                 procedural_memories = procedural (memories_of memories_output),
                                 semantic_memories = semantic (memories_of memories_output),
                                 episodic_memories = episodic (memories_of memories_output),
                                 source_message_ids = map msg_id messages,
                                 mem_created_at = snippet_now e\<rparr> d))))"

section \<open>main.py: the message counter and the trigger\<close>

text \<open>
  What the process finds around it: whether the Supabase client was created
  (\<open>supabase_client\<close> is not \<open>None\<close>) and whether the counting query raises.
\<close>

record main_env =
  supabase_client :: bool
  count_raises :: bool

text \<open>
  \<open>get_session_message_count\<close> of the execution summary: 0 without a client or a session
  id, 0 when the query raises, the exact count of the session's rows otherwise.
\<close>

definition get_session_message_count :: "main_env \<Rightarrow> database \<Rightarrow> string \<Rightarrow> int" where
  "get_session_message_count env d sid =
     (if \<not> supabase_client env \<or> sid = [] then 0
      else if count_raises env then 0
      else int (length (session_messages d sid)))"

text \<open>
  \<open>get_session_message_count\<close> of the copy-paste snippets: it reads the credentials from
  the environment, and has no test of the session id.
\<close>

definition get_session_message_count_snippet :: "main_env \<Rightarrow> database \<Rightarrow> string \<Rightarrow> int" where
  "get_session_message_count_snippet env d sid =
     (if \<not> supabase_client env then 0
      else if count_raises env then 0
      else int (length (session_messages d sid)))"

text \<open>
  A background thread running \<open>trigger_memory_extraction\<close>: started, between its fetch
  and its writes, and finished.
\<close>

datatype run =
  Started string string
  | Fetched string string "chat_history_entry list"
  | Finished

text \<open>
  The trigger in the \<open>/chat\<close> endpoint, after \<open>result = process_user_chat(...)\<close>: the list
  of threads it starts.
\<close>

definition chat_trigger :: "main_env \<Rightarrow> database \<Rightarrow> bool \<Rightarrow> string \<Rightarrow> string \<Rightarrow> run list" where
  "chat_trigger env d result sid uid =
     (if result \<and> sid \<noteq> [] then
        (let count = get_session_message_count env d sid
         in if count > 0 \<and> count mod 20 = 0 then [Started sid uid] else [])
      else [])"

text \<open>The trigger of the copy-paste snippets, placed after the messages are saved.\<close>

definition chat_trigger_snippet :: "main_env \<Rightarrow> database \<Rightarrow> string \<Rightarrow> string \<Rightarrow> run list" where
  "chat_trigger_snippet env d sid uid =
     (let new_message_count = get_session_message_count_snippet env d sid
      in if new_message_count > 0 \<and> new_message_count mod 20 = 0 then [Started sid uid] else [])"

section \<open>The service as a transition system\<close>

text \<open>
  The store, the extraction threads in flight, and the calls made to the memory system so
  far. Every call to Supabase is one request, so a thread is interleaved with the others
  between its fetch and its writes; nothing in the code holds a lock or a transaction
  over the two. A step is: a new message row (its id fresh, its flag at the column's
  default), a \<open>/chat\<close> request reaching the trigger, the fetch of a started thread, or
  the rest of a thread that has fetched. The environment of each step is arbitrary.
\<close>

record system =
  store :: database
  threads :: "run list"
  extracted :: "chat_history_entry input_dict list"

inductive step :: "system \<Rightarrow> system \<Rightarrow> bool" where
  new_message:
    "msg_id m \<notin> msg_id ` set (chat_messages (store s)) \<Longrightarrow> processed_into_memory m = False \<Longrightarrow>
     step s (s\<lparr>store := (store s)\<lparr>chat_messages := chat_messages (store s) @ [m]\<rparr>\<rparr>)"
| chat:
    "step s (s\<lparr>threads := threads s @ chat_trigger env (store s) result sid uid\<rparr>)"
| fetch:
    "i < length (threads s) \<Longrightarrow> threads s ! i = Started sid uid \<Longrightarrow>
     step s (s\<lparr>threads := (threads s)[i := Fetched sid uid (fetch_last_n_messages w (store s) sid 15)]\<rparr>)"
| persist:
    "i < length (threads s) \<Longrightarrow> threads s ! i = Fetched sid uid messages \<Longrightarrow>
     persist_window w messages sid uid (store s) = (d', calls) \<Longrightarrow>
     step s (s\<lparr>store := d', threads := (threads s)[i := Finished], extracted := extracted s @ calls\<rparr>)"

text \<open>The ids of the messages whose flag is set.\<close>

definition processed_ids :: "database \<Rightarrow> nat set" where
  "processed_ids d = set (map msg_id (filter processed_into_memory (chat_messages d)))"

section \<open>The Node backend: \<open>POST /chat\<close>\<close>

text \<open>
  A value of the parsed JSON body, as far as the handler looks at it: its truthiness and
  its rendering inside a template literal. A number carries whether it is zero and the
  rendering JavaScript gives it; \<open>Object\<close> stands for an object or an array and carries
  its rendering.
\<close>

datatype js_value = Undefined | Null | Bool bool | Num bool string | Str string | Object string

definition truthy :: "js_value \<Rightarrow> bool" where
  "truthy v =
     (case v of
        Undefined \<Rightarrow> False
      | Null \<Rightarrow> False
      | Bool b \<Rightarrow> b
      | Num zero rendering \<Rightarrow> \<not> zero
      | Str s \<Rightarrow> s \<noteq> []
      | Object s \<Rightarrow> True)"

definition to_template :: "js_value \<Rightarrow> string" where
  "to_template v =
     (case v of
        Undefined \<Rightarrow> ''undefined''
      | Null \<Rightarrow> ''null''
      | Bool b \<Rightarrow> (if b then ''true'' else ''false'')
      | Num zero rendering \<Rightarrow> rendering
      | Str s \<Rightarrow> s
      | Object s \<Rightarrow> s)"

record request =
  body :: "string \<rightharpoonup> js_value"

record avatar_message =
  msg_text :: string
  facialExpression :: string
  animation :: string
  audio :: "string option"
  lipsync :: "string option"

text \<open>The calls the handler makes to Gemini, to Hume, to the shell and to the file system.\<close>

datatype call =
  GenerateContent string
  | SynthesizeJson string
  | WriteResultToFile nat
  | VoicesCreate nat
  | LipSyncMessage nat
  | AudioFileToBase64 nat
  | ReadJsonTranscript nat

datatype response_body = ErrorBody string "string option" | MessagesBody "avatar_message list"

record response =
  status :: nat
  json :: response_body

text \<open>
  The process's environment: the two API keys, what Gemini answers to a prompt (the parsed
  list of messages, or the message of the exception), at which of its six calls the
  pipeline of the \<open>i\<close>-th message throws, if at any, and the files the pipeline leaves.
\<close>

record node_env =
  elevenLabsApiKey :: bool
  geminiApiKey :: bool
  gemini :: "string \<Rightarrow> string + avatar_message list"
  pipeline_fails :: "nat \<Rightarrow> nat option"
  audio_file :: "nat \<Rightarrow> string"
  transcript_file :: "nat \<Rightarrow> string"

definition pipeline :: "nat \<Rightarrow> avatar_message \<Rightarrow> call list" where
  "pipeline i m =
     [SynthesizeJson (msg_text m), WriteResultToFile i, VoicesCreate i, LipSyncMessage i,
      AudioFileToBase64 i, ReadJsonTranscript i]"

text \<open>
  The loop over the messages, inside one \<open>try\<close>: the first call that throws ends the
  loop, and the messages go out as far as they were filled in.
\<close>

fun speak :: "node_env \<Rightarrow> nat \<Rightarrow> avatar_message list \<Rightarrow> avatar_message list \<times> call list" where
  "speak env i [] = ([], [])"
| "speak env i (m # ms) =
     (case pipeline_fails env i of
        None \<Rightarrow>
          (case speak env (Suc i) ms of
             (ms', calls) \<Rightarrow>
               (m\<lparr>audio := Some (audio_file env i), lipsync := Some (transcript_file env i)\<rparr> # ms',
                pipeline i m @ calls))
      | Some k \<Rightarrow>
          ((if 5 \<le> k then m\<lparr>audio := Some (audio_file env i)\<rparr> else m) # ms,
           take (Suc k) (pipeline i m)))"

definition chat_prompt :: "js_value \<Rightarrow> string" where
  "chat_prompt userMessage =
     ''You are a virtual agent. Reply with a JSON array of up to 3 messages. Each message has: text, facialExpression (smile, sad, angry, surprised, funnyFace, default), and animation (Talking_0, Talking_1, Talking_2, Crying, Laughing, Rumba, Idle, Terrified, Angry). User: '' @
     to_template userMessage"

text \<open>\<open>app.post("/chat", ...)\<close>: the response and the calls made on the way.\<close>

definition chat_handler :: "node_env \<Rightarrow> request \<Rightarrow> response \<times> call list" where
  "chat_handler env req =
     (let userMessage = (case body req ''message'' of None \<Rightarrow> Undefined | Some v \<Rightarrow> v) in
      if \<not> truthy userMessage then
        (\<lparr>status = 400, json = ErrorBody ''No message provided'' None\<rparr>, [])
      else if \<not> elevenLabsApiKey env \<or> \<not> geminiApiKey env then
        (\<lparr>status = 500, json = ErrorBody ''API keys missing'' None\<rparr>, [])
      else case gemini env (chat_prompt userMessage) of
          Inl details \<Rightarrow>
            (\<lparr>status = 500, json = ErrorBody ''Gemini API error'' (Some details)\<rparr>,
             [GenerateContent (chat_prompt userMessage)])
        | Inr messages \<Rightarrow>
            (case speak env 0 messages of
               (messages', calls) \<Rightarrow>
                 (\<lparr>status = 200, json = MessagesBody messages'\<rparr>,
                  GenerateContent (chat_prompt userMessage) # calls)))"

section \<open>Example stores and environments\<close>

text \<open>A session \<open>s1\<close> of \<open>n\<close> messages, none processed, created one after the other.\<close>

definition fresh_message :: "nat \<Rightarrow> chat_message" where
  "fresh_message i =
     \<lparr>msg_id = i, session_id = ''s1'', role = ''user'', content = ''hello'',
      created_at = i, processed_into_memory = False\<rparr>"

definition fresh_store :: "nat \<Rightarrow> database" where
  "fresh_store n = \<lparr>chat_messages = map fresh_message [1..<Suc n], memories = []\<rparr>"

definition main_up :: main_env where
  "main_up = \<lparr>supabase_client = True, count_raises = False\<rparr>"

text \<open>A process whose counting query raises, and one that has no Supabase client.\<close>

definition count_down :: main_env where
  "count_down = \<lparr>supabase_client = True, count_raises = True\<rparr>"

definition no_client :: main_env where
  "no_client = \<lparr>supabase_client = False, count_raises = False\<rparr>"

text \<open>
  A store with two sessions: \<open>n\<close> messages of \<open>s1\<close> followed by \<open>k\<close> messages of
  \<open>s2\<close>.
\<close>

definition other_message :: "nat \<Rightarrow> chat_message" where
  "other_message i =
     \<lparr>msg_id = i, session_id = ''s2'', role = ''user'', content = ''hello'',
      created_at = i, processed_into_memory = False\<rparr>"

definition two_sessions :: "nat \<Rightarrow> nat \<Rightarrow> database" where
  "two_sessions n k =
     \<lparr>chat_messages = map fresh_message [1..<Suc n] @ map other_message [Suc n..<Suc (n + k)],
      memories = []\<rparr>"

text \<open>A memory system that finds one semantic memory in whatever it is given.\<close>

definition one_fact :: "chat_history_entry input_dict \<Rightarrow> py_error + memories_output" where
  "one_fact inp =
     Inr (build_output inp ''chat'' 0 ''session_0''
            \<lparr>procedural = [], semantic = [''likes cricket''], episodic = []\<rparr>)"

text \<open>
  A workflow in which everything answers; one whose update of \<open>chat_messages\<close> raises;
  one whose inserts into \<open>memories\<close> raise.
\<close>

definition workflow_up :: workflow_env where
  "workflow_up =
     \<lparr>supabase = True, fetch_raises = False, memory_system = Some one_fact,
      insert_raises = (\<lambda>k. False), update_raises = False, select_memories_raises = False,
      now = 100\<rparr>"

definition update_down :: workflow_env where
  "update_down = workflow_up\<lparr>update_raises := True\<rparr>"

definition insert_down :: workflow_env where
  "insert_down = workflow_up\<lparr>insert_raises := (\<lambda>k. True)\<rparr>"

text \<open>
  Two runs one after the other on the session of 20 messages: in the first the update of
  \<open>chat_messages\<close> raises, in the second everything answers.
\<close>

definition first_run :: "database \<times> chat_history_entry input_dict list" where
  "first_run = trigger_memory_extraction update_down (fresh_store 20) ''s1'' ''u1''"

definition second_run :: "database \<times> chat_history_entry input_dict list" where
  "second_run = trigger_memory_extraction workflow_up (fst first_run) ''s1'' ''u1''"

text \<open>
  A state in which the first 15 of the 20 messages are processed, and the state after the
  next chat turn.
\<close>

definition settled :: system where
  "settled =
     \<lparr>store = mark_processed [1, 2, 3, 4, 5, 6, 7, 8, 9, 10, 11, 12, 13, 14, 15] (fresh_store 20),
      threads = [], extracted = []\<rparr>"

definition settled_next :: system where
  "settled_next =
     settled\<lparr>threads := threads settled @ chat_trigger main_up (store settled) True ''s1'' ''u1''\<rparr>"

text \<open>
  An interleaving of two chat turns of the session of 20 messages, with nothing failing:
  both turns reach the trigger, both threads fetch, then both write.
\<close>

definition race0 :: system where
  "race0 = \<lparr>store = fresh_store 20, threads = [], extracted = []\<rparr>"

definition race1 :: system where
  "race1 = race0\<lparr>threads := threads race0 @ chat_trigger main_up (store race0) True ''s1'' ''u1''\<rparr>"

definition race2 :: system where
  "race2 = race1\<lparr>threads := threads race1 @ chat_trigger main_up (store race1) True ''s1'' ''u1''\<rparr>"

definition race3 :: system where
  "race3 = race2\<lparr>threads := (threads race2)
     [0 := Fetched ''s1'' ''u1'' (fetch_last_n_messages workflow_up (store race2) ''s1'' 15)]\<rparr>"

definition race4 :: system where
  "race4 = race3\<lparr>threads := (threads race3)
     [1 := Fetched ''s1'' ''u1'' (fetch_last_n_messages workflow_up (store race3) ''s1'' 15)]\<rparr>"

definition race_window :: "chat_history_entry list" where
  "race_window = fetch_last_n_messages workflow_up (fresh_store 20) ''s1'' 15"

definition race5 :: system where
  "race5 = race4
     \<lparr>store := fst (persist_window workflow_up race_window ''s1'' ''u1'' (store race4)),
      threads := (threads race4)[0 := Finished],
      extracted := extracted race4 @ snd (persist_window workflow_up race_window ''s1'' ''u1'' (store race4))\<rparr>"

definition race6 :: system where
  "race6 = race5
     \<lparr>store := fst (persist_window workflow_up race_window ''s1'' ''u1'' (store race5)),
      threads := (threads race5)[1 := Finished],
      extracted := extracted race5 @ snd (persist_window workflow_up race_window ''s1'' ''u1'' (store race5))\<rparr>"

text \<open>
  Memory system parts for a chat: the formatted data is the history itself, and each
  extractor finds one memory.
\<close>

definition example_parts :: "(chat_history_entry, chat_history_entry list) memory_parts" where
  "example_parts =
     \<lparr>loads = (\<lambda>s. None),
      detect_data_type = (\<lambda>inp. ''general''),
      data_handlers = (\<lambda>dt. if dt = ''chat'' then Some chat_history else None),
      handle_general_data = chat_history,
      extract_procedural_memory = (\<lambda>formatted dt. Inr [''breathing exercise'']),
      extract_semantic_memory = (\<lambda>formatted dt. Inr [''likes cricket'', ''studies in Pune'']),
      extract_episodic_memory = (\<lambda>formatted dt. Inr [])\<rparr>"

definition example_input :: "chat_history_entry input_dict" where
  "example_input =
     \<lparr>data_type = Some ''chat'', user_id = Some ''u1'', in_session_id = Some ''s1'',
      chat_history = map to_entry (select_unprocessed (fresh_store 20) ''s1'' 15),
      activities = []\<rparr>"

text \<open>A model that answers every attempt with a JSON object instead of a list.\<close>

definition always_object :: llm where
  "always_object =
     \<lparr>generate_content = (\<lambda>attempt prompt. Inr (Text ''{}'')), json_loads = (\<lambda>t. JsonOther)\<rparr>"

text \<open>A model whose answers are never JSON.\<close>

definition always_garbled :: llm where
  "always_garbled =
     \<lparr>generate_content = (\<lambda>attempt prompt. Inr (Text ''Sorry, I cannot help'')),
      json_loads = (\<lambda>t. JSONDecodeError)\<rparr>"

text \<open>
  What an attempt gets from the model, whatever the retry budget: the list its response
  parses to, if it does; and whether its response parses to JSON that is not a list.
\<close>

definition attempt_list :: "llm \<Rightarrow> string \<Rightarrow> nat \<Rightarrow> memory list option" where
  "attempt_list m prompt attempt =
     (case generate_content m attempt prompt of
        Inr (Text t) \<Rightarrow> (case json_loads m t of JsonList xs \<Rightarrow> Some xs | _ \<Rightarrow> None)
      | Inr (Content t) \<Rightarrow> (case json_loads m t of JsonList xs \<Rightarrow> Some xs | _ \<Rightarrow> None)
      | _ \<Rightarrow> None)"

definition attempt_not_list :: "llm \<Rightarrow> string \<Rightarrow> nat \<Rightarrow> bool" where
  "attempt_not_list m prompt attempt =
     (case generate_content m attempt prompt of
        Inr (Text t) \<Rightarrow> json_loads m t = JsonOther
      | Inr (Content t) \<Rightarrow> json_loads m t = JsonOther
      | _ \<Rightarrow> False)"

text \<open>The number of rows of \<open>memories\<close> a session has under a memory type.\<close>

definition stored_count :: "database \<Rightarrow> string \<Rightarrow> string \<Rightarrow> nat" where
  "stored_count d sid mtype =
     length (filter (\<lambda>r. mem_session_id r = sid \<and> memory_type r = Some mtype) (memories d))"

text \<open>Two stores that hold one semantic memory each for the session, with different content.\<close>

definition cricket_store :: database where
  "cricket_store =
     \<lparr>chat_messages = [],
      memories = [memory_record workflow_up ''u1'' ''s1'' ''semantic'' ''likes cricket'']\<rparr>"

definition exams_store :: database where
  "exams_store =
     \<lparr>chat_messages = [],
      memories = [memory_record workflow_up ''u1'' ''s1'' ''semantic'' ''is anxious about exams'']\<rparr>"

text \<open>
  A store in which the session has one semantic memory, one row as the snippets' run
  writes it (no \<open>memory_type\<close>), one row of a type that is none of the three, and in
  which another session has a procedural memory.
\<close>

definition mixed_store :: database where
  "mixed_store =
     \<lparr>chat_messages = [],
      memories =
        [memory_record workflow_up ''u1'' ''s1'' ''semantic'' ''likes cricket'',
         \<lparr>mem_user_id = ''u1'', mem_session_id = ''s1'', memory_type = None, mem_content = None,
          procedural_memories = [''breathing exercise''], semantic_memories = [],
          episodic_memories = [], source_message_ids = [1, 2], mem_created_at = 101\<rparr>,
         memory_record workflow_up ''u1'' ''s1'' ''other'' ''a note'',
         memory_record workflow_up ''u2'' ''s2'' ''procedural'' ''counts to ten'']\<rparr>"

definition turn :: analyst_state where
  "turn =
     \<lparr>state_session_id = Some ''s1'', user_message = ''hi'', conversation_context = [],
      activities_context = ''none'', voice_context = [], rest_of_prompt = ''Respond in JSON.''\<rparr>"

text \<open>A Node process with both keys, a Gemini that answers one message, and no failure.\<close>

definition node_up :: node_env where
  "node_up =
     \<lparr>elevenLabsApiKey = True, geminiApiKey = True,
      gemini = (\<lambda>prompt. Inr [\<lparr>msg_text = ''Hello'', facialExpression = ''smile'',
                                 animation = ''Talking_0'', audio = None, lipsync = None\<rparr>]),
      pipeline_fails = (\<lambda>i. None),
      audio_file = (\<lambda>i. ''UklGRg==''),
      transcript_file = (\<lambda>i. ''{}'')\<rparr>"

section \<open>The trigger\<close>

lemma length_fresh_session: "length (session_messages (fresh_store n) ''s1'') = n"
  by (simp add: session_messages_def fresh_store_def fresh_message_def)

lemma chat_trigger_snippet_every_20:
  "chat_trigger_snippet env d sid uid =
     (if 0 < get_session_message_count_snippet env d sid \<and>
         get_session_message_count_snippet env d sid mod 20 = 0
      then [Started sid uid] else [])"
  by (simp add: chat_trigger_snippet_def Let_def)

text \<open>
  C1, as amended. After a handled \<open>/chat\<close> request (one whose workflow result is
  present) one extraction thread is started exactly when the counting query answers (the
  Supabase client exists, the request names a session, the query does not raise) and the
  number of rows of \<open>chat_messages\<close> that belong to the request's session is a positive
  multiple of 20. In every other case no thread is started; a count that could not be
  taken is 0.
\<close>

theorem chat_trigger_every_20:
  assumes "result"
  shows "chat_trigger env d result sid uid =
           (if supabase_client env \<and> \<not> count_raises env \<and> sid \<noteq> [] \<and>
               0 < length (filter (\<lambda>m. session_id m = sid) (chat_messages d)) \<and>
               length (filter (\<lambda>m. session_id m = sid) (chat_messages d)) mod 20 = 0
            then [Started sid uid] else [])"
proof -
  have "int n mod 20 = 0 \<longleftrightarrow> n mod 20 = 0" for n :: nat by presburger
  then show ?thesis
    using assms
    by (simp add: chat_trigger_def get_session_message_count_def session_messages_def Let_def)
qed

theorem chat_trigger_every_20_witness:
  "chat_trigger main_up (two_sessions 20 5) True ''s1'' ''u1'' = [Started ''s1'' ''u1''] \<and>
   chat_trigger main_up (two_sessions 20 5) True ''s2'' ''u1'' = [] \<and>
   chat_trigger main_up (two_sessions 15 5) True ''s1'' ''u1'' = [] \<and>
   chat_trigger main_up (two_sessions 20 20) True ''s2'' ''u2'' = [Started ''s2'' ''u2'']"
proof -
  have a: "length (filter (\<lambda>m. session_id m = ''s1'') (chat_messages (two_sessions 20 5))) = 20"
    and b: "length (filter (\<lambda>m. session_id m = ''s2'') (chat_messages (two_sessions 20 5))) = 5"
    and c: "length (filter (\<lambda>m. session_id m = ''s1'') (chat_messages (two_sessions 15 5))) = 15"
    and d: "length (filter (\<lambda>m. session_id m = ''s2'') (chat_messages (two_sessions 20 20))) = 20"
    by code_simp+
  have e: "supabase_client main_up" "\<not> count_raises main_up" by (simp_all add: main_up_def)
  from chat_trigger_every_20 [of True main_up "two_sessions 20 5" "''s1''" "''u1''"]
    chat_trigger_every_20 [of True main_up "two_sessions 20 5" "''s2''" "''u1''"]
    chat_trigger_every_20 [of True main_up "two_sessions 15 5" "''s1''" "''u1''"]
    chat_trigger_every_20 [of True main_up "two_sessions 20 20" "''s2''" "''u2''"]
  show ?thesis by (simp add: a b c d e)
qed

text \<open>
  The claim as stated fails: a session of 20 messages starts no extraction when the
  counting query raises or the client is missing, since the count is then taken as 0.
\<close>

theorem no_trigger_without_count:
  "length (filter (\<lambda>m. session_id m = ''s1'') (chat_messages (fresh_store 20))) = 20 \<and>
   chat_trigger count_down (fresh_store 20) True ''s1'' ''u1'' = [] \<and>
   chat_trigger no_client (fresh_store 20) True ''s1'' ''u1'' = [] \<and>
   chat_trigger main_up (fresh_store 20) True ''s1'' ''u1'' = [Started ''s1'' ''u1'']"
  by code_simp

section \<open>The window of a run\<close>

lemma select_unprocessed_sound:
  "m \<in> set (select_unprocessed d sid n) \<Longrightarrow>
     m \<in> set (chat_messages d) \<and> session_id m = sid \<and> \<not> processed_into_memory m"
  by (auto simp: select_unprocessed_def dest!: in_set_takeD)

lemma length_select_unprocessed: "length (select_unprocessed d sid n) \<le> n"
  by (simp add: select_unprocessed_def)

lemma chat_messages_insert_memory [simp]:
  "chat_messages (insert_memory r d) = chat_messages d"
  by (simp add: insert_memory_def)

lemma chat_messages_save_memories:
  "save_memories w uid sid ms k d = (d', c) \<Longrightarrow> chat_messages d' = chat_messages d"
proof (induction ms arbitrary: k d d' c)
  case Nil
  then show ?case by simp
next
  case (Cons p ms)
  obtain mtype m where p: "p = (mtype, m)" by (cases p)
  show ?case
  proof (cases "insert_raises w k")
    case True
    with Cons.prems p have "save_memories w uid sid ms (Suc k) d = (d', c)" by simp
    then show ?thesis by (rule Cons.IH)
  next
    case False
    obtain d1 c1 where r: "save_memories w uid sid ms (Suc k)
        (insert_memory (memory_record w uid sid mtype m) d) = (d1, c1)"
      by (cases "save_memories w uid sid ms (Suc k)
        (insert_memory (memory_record w uid sid mtype m) d)")
    with Cons.prems p False have "d' = d1" by simp
    moreover from r have "chat_messages d1 =
        chat_messages (insert_memory (memory_record w uid sid mtype m) d)"
      by (rule Cons.IH)
    ultimately show ?thesis by simp
  qed
qed

lemma ids_mark_processed [simp]:
  "map msg_id (chat_messages (mark_processed ids d)) = map msg_id (chat_messages d)"
  by (simp add: mark_processed_def comp_def)

lemma processed_ids_mark_processed:
  "processed_ids d \<subseteq> processed_ids (mark_processed ids d)"
proof
  fix i assume "i \<in> processed_ids d"
  then obtain m where m: "m \<in> set (chat_messages d)" "processed_into_memory m" "msg_id m = i"
    by (auto simp: processed_ids_def)
  let ?f = "\<lambda>m. if msg_id m \<in> set ids then m\<lparr>processed_into_memory := True\<rparr> else m"
  from m(1) have "?f m \<in> ?f ` set (chat_messages d)" by (rule imageI)
  then have "?f m \<in> set (chat_messages (mark_processed ids d))"
    by (simp add: mark_processed_def)
  moreover from m have "processed_into_memory (?f m)" "msg_id (?f m) = i" by simp_all
  ultimately show "i \<in> processed_ids (mark_processed ids d)"
    unfolding processed_ids_def by force
qed

lemma persist_window_cases:
  assumes "persist_window w messages sid uid d = (d', calls)"
  shows "chat_messages d' = chat_messages d \<or>
         (\<exists>d1. chat_messages d1 = chat_messages d \<and> d' = mark_processed (map entry_id messages) d1)"
proof (cases "messages = []")
  case True
  with assms show ?thesis by (simp add: persist_window_def)
next
  case ne: False
  show ?thesis
  proof (cases "memory_system w")
    case None
    with assms ne show ?thesis by (simp add: persist_window_def)
  next
    case (Some process)
    let ?chat = "\<lparr>data_type = Some ''chat'', user_id = Some uid, in_session_id = Some sid,
                   chat_history = messages, activities = []\<rparr>"
    show ?thesis
    proof (cases "process ?chat")
      case (Inl e)
      with assms ne Some show ?thesis by (simp add: persist_window_def)
    next
      case (Inr result)
      obtain d1 saved where s: "save_memories w uid sid (typed_memories (memories_of result)) 0 d = (d1, saved)"
        by (cases "save_memories w uid sid (typed_memories (memories_of result)) 0 d")
      then have c: "chat_messages d1 = chat_messages d" by (rule chat_messages_save_memories)
      from assms ne Some Inr s have "d' = d1 \<or> d' = mark_processed (map entry_id messages) d1"
        by (auto simp: persist_window_def Let_def split: if_splits)
      with c show ?thesis by auto
    qed
  qed
qed

lemma persist_window_ids:
  "persist_window w messages sid uid d = (d', calls) \<Longrightarrow>
     map msg_id (chat_messages d') = map msg_id (chat_messages d)"
proof -
  assume "persist_window w messages sid uid d = (d', calls)"
  then consider "chat_messages d' = chat_messages d"
    | d1 where "chat_messages d1 = chat_messages d" "d' = mark_processed (map entry_id messages) d1"
    using persist_window_cases by blast
  then show ?thesis
  proof cases
    case 1
    then show ?thesis by simp
  next
    case 2
    then show ?thesis using ids_mark_processed [of "map entry_id messages" d1] by simp
  qed
qed

lemma processed_ids_cong: "chat_messages d1 = chat_messages d \<Longrightarrow> processed_ids d1 = processed_ids d"
  by (simp add: processed_ids_def)

lemma persist_window_processed:
  "persist_window w messages sid uid d = (d', calls) \<Longrightarrow> processed_ids d \<subseteq> processed_ids d'"
proof -
  assume "persist_window w messages sid uid d = (d', calls)"
  then consider "chat_messages d' = chat_messages d"
    | d1 where "chat_messages d1 = chat_messages d" "d' = mark_processed (map entry_id messages) d1"
    using persist_window_cases by blast
  then show ?thesis
  proof cases
    case 1
    then have "processed_ids d' = processed_ids d" by (rule processed_ids_cong)
    then show ?thesis by simp
  next
    case 2
    from 2(1) have "processed_ids d1 = processed_ids d" by (rule processed_ids_cong)
    with processed_ids_mark_processed [of d1 "map entry_id messages"] 2(2)
    show ?thesis by simp
  qed
qed

lemma step_ids:
  "step s s' \<Longrightarrow> distinct (map msg_id (chat_messages (store s))) \<Longrightarrow>
     distinct (map msg_id (chat_messages (store s')))"
proof (induction rule: step.induct)
  case (new_message m s)
  then show ?case by simp
next
  case (chat s env result sid uid)
  then show ?case by simp
next
  case (fetch i s sid uid w)
  then show ?case by simp
next
  case (persist i s sid uid messages w d' calls)
  then show ?case using persist_window_ids [of w messages sid uid "store s" d' calls] by simp
qed

lemma step_processed:
  "step s s' \<Longrightarrow> processed_ids (store s) \<subseteq> processed_ids (store s')"
proof (induction rule: step.induct)
  case (new_message m s)
  then show ?case by (auto simp: processed_ids_def)
next
  case (chat s env result sid uid)
  then show ?case by simp
next
  case (fetch i s sid uid w)
  then show ?case by simp
next
  case (persist i s sid uid messages w d' calls)
  then show ?case using persist_window_processed [of w messages sid uid "store s" d' calls] by simp
qed

lemma steps_invariant:
  "step\<^sup>*\<^sup>* s s' \<Longrightarrow> distinct (map msg_id (chat_messages (store s))) \<Longrightarrow>
     distinct (map msg_id (chat_messages (store s'))) \<and> processed_ids (store s) \<subseteq> processed_ids (store s')"
proof (induction rule: rtranclp_induct)
  case base
  then show ?case by simp
next
  case (step y z)
  then show ?case using step_ids [of y z] step_processed [of y z] by blast
qed

lemma processed_not_selected:
  assumes "distinct (map msg_id (chat_messages d))" and "i \<in> processed_ids d"
  shows "i \<notin> msg_id ` set (select_unprocessed d sid n)"
proof
  assume "i \<in> msg_id ` set (select_unprocessed d sid n)"
  then obtain m where m: "m \<in> set (select_unprocessed d sid n)" "msg_id m = i" by auto
  then have u: "m \<in> set (chat_messages d)" "\<not> processed_into_memory m"
    using select_unprocessed_sound by blast+
  from assms(2) obtain m' where m': "m' \<in> set (chat_messages d)" "processed_into_memory m'" "msg_id m' = i"
    by (auto simp: processed_ids_def)
  from assms(1) have "inj_on msg_id (set (chat_messages d))" by (simp add: distinct_map)
  with u(1) m'(1) m(2) m'(3) have "m = m'" by (auto dest: inj_onD)
  with u(2) m'(2) show False by simp
qed

lemma fetch_ids: "entry_id ` set (fetch_last_n_messages w d sid n) \<subseteq> msg_id ` set (select_unprocessed d sid n)"
  by (auto simp: fetch_last_n_messages_def to_entry_def)


text \<open>
  What the query does select: unprocessed rows of the session only, at most \<open>n\<close> of
  them, in ascending order of \<open>created_at\<close>, and no unprocessed row of the session that is
  left out is older than a selected one. With more than \<open>n\<close> unprocessed rows these are
  the oldest \<open>n\<close>, not the last.
\<close>

lemma select_unprocessed_oldest:
  assumes "m \<in> set (select_unprocessed d sid n)"
    and "m' \<in> set (chat_messages d)" "session_id m' = sid" "\<not> processed_into_memory m'"
    and "m' \<notin> set (select_unprocessed d sid n)"
  shows "created_at m \<le> created_at m'"
proof -
  define rows where "rows = sort_key created_at
     (filter (\<lambda>m. session_id m = sid \<and> processed_into_memory m = False) (chat_messages d))"
  have sel: "select_unprocessed d sid n = take n rows"
    by (simp add: select_unprocessed_def rows_def)
  have "sorted (map created_at rows)" unfolding rows_def by (rule sorted_sort_key)
  then have "sorted (map created_at (take n rows @ drop n rows))"
    by (simp only: append_take_drop_id)
  then have le: "\<forall>x\<in>set (take n rows). \<forall>y\<in>set (drop n rows). created_at x \<le> created_at y"
    by (simp only: map_append sorted_append set_map) blast
  have "set rows = set (take n rows) \<union> set (drop n rows)"
    by (simp only: set_append [symmetric] append_take_drop_id)
  moreover from assms(2-4) have "m' \<in> set rows" by (simp add: rows_def)
  ultimately have "m' \<in> set (drop n rows)" using assms(5) sel by auto
  moreover from assms(1) sel have "m \<in> set (take n rows)" by simp
  ultimately show ?thesis using le by blast
qed

text \<open>
  C2. The claim reads the window as the last 15 unprocessed messages, as the docstring of
  \<open>fetch_last_n_messages\<close> does. On a session of 20 unprocessed messages, the store at the
  first trigger, the code fetches the messages 1 to 15, the oldest; the last 15 are the
  messages 6 to 20.
\<close>

theorem fetch_last_n_messages_takes_oldest:
  "map entry_id (fetch_last_n_messages workflow_up (fresh_store 20) ''s1'' 15) =
     [1, 2, 3, 4, 5, 6, 7, 8, 9, 10, 11, 12, 13, 14, 15] \<and>
   map msg_id (last_n_unprocessed (fresh_store 20) ''s1'' 15) =
     [6, 7, 8, 9, 10, 11, 12, 13, 14, 15, 16, 17, 18, 19, 20]"
  by code_simp

theorem fetch_last_n_messages_takes_oldest_witness:
  "length (fetch_last_n_messages workflow_up (fresh_store 20) ''s1'' 15) = 15 \<and>
   length (last_n_unprocessed (fresh_store 20) ''s1'' 15) = 15"
proof -
  from fetch_last_n_messages_takes_oldest
  have "length (map entry_id (fetch_last_n_messages workflow_up (fresh_store 20) ''s1'' 15)) =
          length [1, 2, 3, 4, 5, 6, 7, 8, 9, 10, 11, 12, 13, 14, 15 :: nat]"
    and "length (map msg_id (last_n_unprocessed (fresh_store 20) ''s1'' 15)) =
          length [6, 7, 8, 9, 10, 11, 12, 13, 14, 15, 16, 17, 18, 19, 20 :: nat]"
    by (simp_all only:)
  then show ?thesis by simp
qed

section \<open>Processing at most once\<close>

text \<open>
  C3, as amended. Once the flag of a message is set, no later run fetches it: from any
  state with distinct message ids, after any number of steps of the service (new
  messages, chat turns, fetches and writes of any threads, in any order and with any
  failures), a fetch does not return a message whose flag was set at the start.
\<close>

theorem processed_never_fetched_again:
  assumes "distinct (map msg_id (chat_messages (store s)))"
    and "i \<in> processed_ids (store s)"
    and "step\<^sup>*\<^sup>* s s'"
  shows "i \<notin> entry_id ` set (fetch_last_n_messages w (store s') sid n)"
proof -
  from steps_invariant [OF assms(3) assms(1)] assms(2)
  have "distinct (map msg_id (chat_messages (store s')))" and "i \<in> processed_ids (store s')"
    by auto
  then have "i \<notin> msg_id ` set (select_unprocessed (store s') sid n)"
    by (rule processed_not_selected)
  with fetch_ids [of w "store s'" sid n] show ?thesis by auto
qed


theorem processed_never_fetched_again_witness:
  "1 \<notin> entry_id ` set (fetch_last_n_messages workflow_up (store settled_next) ''s1'' 15) \<and>
   map entry_id (fetch_last_n_messages workflow_up (store settled_next) ''s1'' 15) =
     [16, 17, 18, 19, 20]"
proof -
  have d: "distinct (map msg_id (chat_messages (store settled)))" by code_simp
  have p: "1 \<in> processed_ids (store settled)" by code_simp
  have "step settled settled_next" unfolding settled_next_def by (rule step.chat)
  then have r: "step\<^sup>*\<^sup>* settled settled_next" by (rule r_into_rtranclp)
  have w: "map entry_id (fetch_last_n_messages workflow_up (store settled_next) ''s1'' 15) =
     [16, 17, 18, 19, 20]" by code_simp
  from processed_never_fetched_again [OF d p r, of workflow_up "''s1''" 15] w show ?thesis by simp
qed

text \<open>
  The claim as stated fails: when the update that marks a window raises, the handler logs
  it and the run ends with the flags unset, so the next run fetches the same window. The
  messages 1 to 15 go through two extractions, and both store their memory.
\<close>

theorem window_extracted_twice:
  "map (map entry_id \<circ> chat_history) (snd first_run) =
     [[1, 2, 3, 4, 5, 6, 7, 8, 9, 10, 11, 12, 13, 14, 15]] \<and>
   map (map entry_id \<circ> chat_history) (snd second_run) =
     [[1, 2, 3, 4, 5, 6, 7, 8, 9, 10, 11, 12, 13, 14, 15]] \<and>
   map mem_content (memories (fst first_run)) = [Some ''likes cricket''] \<and>
   map mem_content (memories (fst second_run)) = [Some ''likes cricket'', Some ''likes cricket'']"
  by code_simp

section \<open>Two chat turns racing\<close>

lemma persist_up_calls:
  "messages \<noteq> [] \<Longrightarrow>
     snd (persist_window workflow_up messages sid uid d) =
       [\<lparr>data_type = Some ''chat'', user_id = Some uid, in_session_id = Some sid,
         chat_history = messages, activities = []\<rparr>]"
  by (simp add: persist_window_def workflow_up_def one_fact_def Let_def split: prod.splits)

lemma persist_up_memories:
  "messages \<noteq> [] \<Longrightarrow>
     memories (fst (persist_window workflow_up messages sid uid d)) =
       memories d @ [memory_record workflow_up uid sid ''semantic'' ''likes cricket'']"
  by (simp add: persist_window_def workflow_up_def one_fact_def build_output_def
      typed_memories_def insert_memory_def mark_processed_def Let_def)

lemma race_fetches: "step\<^sup>*\<^sup>* race0 race4"
proof -
  have 1: "step race0 race1" unfolding race1_def by (rule step.chat)
  have 2: "step race1 race2" unfolding race2_def by (rule step.chat)
  have "0 < length (threads race2)" "threads race2 ! 0 = Started ''s1'' ''u1''" by code_simp+
  then have 3: "step race2 race3" unfolding race3_def by (rule step.fetch)
  have "1 < length (threads race3)" "threads race3 ! 1 = Started ''s1'' ''u1''" by code_simp+
  then have 4: "step race3 race4" unfolding race4_def by (rule step.fetch)
  from 1 2 3 4 show ?thesis by (meson rtranclp.rtrancl_into_rtrancl rtranclp.rtrancl_refl)
qed

lemma race_writes: "step\<^sup>*\<^sup>* race4 race6"
proof -
  have "0 < length (threads race4)" "threads race4 ! 0 = Fetched ''s1'' ''u1'' race_window"
    by code_simp+
  then have 5: "step race4 race5" unfolding race5_def
    by (rule step.persist) (rule prod.collapse [symmetric])
  have "1 < length (threads race5)" "threads race5 ! 1 = Fetched ''s1'' ''u1'' race_window"
    by code_simp+
  then have 6: "step race5 race6" unfolding race6_def
    by (rule step.persist) (rule prod.collapse [symmetric])
  from 5 6 show ?thesis by (meson rtranclp.rtrancl_into_rtrancl rtranclp.rtrancl_refl)
qed

text \<open>
  C8. Two chat turns of one session can race on the same window. From the session of 20
  unprocessed messages the service reaches a state in which two threads stand between
  their fetch and their writes holding the same window, the messages 1 to 15, none of
  them marked yet; and from there a state in which both threads have finished, both have
  handed that window to the memory system, and both have stored the memory they got.
\<close>

theorem concurrent_runs_share_window:
  "\<exists>s t window.
       step\<^sup>*\<^sup>* race0 s \<and>
       threads s = [Fetched ''s1'' ''u1'' window, Fetched ''s1'' ''u1'' window] \<and>
       map entry_id window = [1, 2, 3, 4, 5, 6, 7, 8, 9, 10, 11, 12, 13, 14, 15] \<and>
       processed_ids (store s) = {} \<and>
       step\<^sup>*\<^sup>* s t \<and>
       threads t = [Finished, Finished] \<and>
       map chat_history (extracted t) = [window, window] \<and>
       map mem_user_id (memories (store t)) = [''u1'', ''u1'']"
proof -
  have w: "map entry_id race_window = [1, 2, 3, 4, 5, 6, 7, 8, 9, 10, 11, 12, 13, 14, 15]"
    by code_simp
  then have ne: "race_window \<noteq> []" by auto
  have t4: "threads race4 = [Fetched ''s1'' ''u1'' race_window, Fetched ''s1'' ''u1'' race_window]"
    by code_simp
  have p4: "processed_ids (store race4) = {}" by code_simp
  have e4: "extracted race4 = []" by code_simp
  have m4: "memories (store race4) = []" by code_simp
  have t: "threads race6 = [Finished, Finished]"
    by (simp add: race6_def race5_def t4)
  have e: "map chat_history (extracted race6) = [race_window, race_window]"
    by (simp add: race6_def race5_def e4 persist_up_calls [OF ne])
  have m: "map mem_user_id (memories (store race6)) = [''u1'', ''u1'']"
    by (simp add: race6_def race5_def persist_up_memories [OF ne] m4 memory_record_def)
  from race_fetches t4 w p4 race_writes t e m
  have "step\<^sup>*\<^sup>* race0 race4 \<and>
       threads race4 = [Fetched ''s1'' ''u1'' race_window, Fetched ''s1'' ''u1'' race_window] \<and>
       map entry_id race_window = [1, 2, 3, 4, 5, 6, 7, 8, 9, 10, 11, 12, 13, 14, 15] \<and>
       processed_ids (store race4) = {} \<and>
       step\<^sup>*\<^sup>* race4 race6 \<and>
       threads race6 = [Finished, Finished] \<and>
       map chat_history (extracted race6) = [race_window, race_window] \<and>
       map mem_user_id (memories (store race6)) = [''u1'', ''u1'']"
    by (intro conjI)
  then show ?thesis by (intro exI)
qed

section \<open>Saving and marking\<close>

text \<open>The update marks every row of the store whose id it names.\<close>

lemma marked_by_mark_processed:
  assumes "m \<in> set (chat_messages d)" and "msg_id m \<in> set ids"
  shows "msg_id m \<in> processed_ids (mark_processed ids d)"
proof -
  define m' where "m' = m\<lparr>processed_into_memory := True\<rparr>"
  from assms have "m' \<in> set (chat_messages (mark_processed ids d))"
    by (auto simp: mark_processed_def m'_def image_iff intro!: bexI [of _ m])
  moreover have "processed_into_memory m'" "msg_id m' = msg_id m" by (simp_all add: m'_def)
  ultimately have "m' \<in> set (filter processed_into_memory (chat_messages (mark_processed ids d)))"
    and i: "msg_id m' = msg_id m"
    by simp_all
  then have "msg_id m' \<in> msg_id ` set (filter processed_into_memory
      (chat_messages (mark_processed ids d)))"
    by (intro imageI)
  with i show ?thesis by (simp add: processed_ids_def)
qed

text \<open>
  The snippets' run leaves the store as it was when its insert raises, and raises in turn.
\<close>

lemma snippet_insert_failure_changes_nothing:
  assumes "snippet_insert_raises e"
  shows "fst (trigger_memory_extraction_snippet e d sid uid) = d"
  using assms
  by (simp add: trigger_memory_extraction_snippet_def Let_def split: sum.splits option.splits)

text \<open>
  C4. The claim wants no source message marked when persisting fails, and the snippets'
  run does that. In the run of the execution summary every insert sits in a \<open>try\<close> of
  its own, so when the inserts raise the window is marked all the same: on the session of
  20 messages, with every insert raising, no memory is stored and the messages 1 to 15
  are marked processed.
\<close>

theorem failed_inserts_still_mark:
  "memories (fst (trigger_memory_extraction insert_down (fresh_store 20) ''s1'' ''u1'')) = [] \<and>
   map msg_id (filter processed_into_memory
     (chat_messages (fst (trigger_memory_extraction insert_down (fresh_store 20) ''s1'' ''u1'')))) =
     [1, 2, 3, 4, 5, 6, 7, 8, 9, 10, 11, 12, 13, 14, 15]"
  by code_simp

section \<open>The parallel extraction\<close>



lemma two_workers_make_one_wait:
  "fold submit [0, 1, 2] (ThreadPoolExecutor 2) =
     \<lparr>workers = 2, running = [0, 1], waiting = [2], completed = []\<rparr>"
  by (simp add: ThreadPoolExecutor_def submit_def)

lemma one_worker_runs_in_turn:
  "completed (fold complete [2, 0, 1, 2] (fold submit [0, 1, 2] (ThreadPoolExecutor 1))) = [0, 1, 2]"
  by (simp add: ThreadPoolExecutor_def submit_def complete_def)





text \<open>
  C9. In every output of \<open>extract_all_memories_parallel\<close> the total is the sum of the
  three category totals, and each category total is the length of that category's list
  in the same output.
\<close>

theorem memory_summary_counts:
  assumes "extract_all_memories_parallel p order clock fallback input = Inr out"
  shows "total_memories (summary out) =
           total_procedural (summary out) + total_semantic (summary out) +
           total_episodic (summary out) \<and>
         total_procedural (summary out) = length (procedural (memories_of out)) \<and>
         total_semantic (summary out) = length (semantic (memories_of out)) \<and>
         total_episodic (summary out) = length (episodic (memories_of out))"
proof -
  from assms obtain inp where "extract_from_dict p order clock fallback inp = Inr out"
    by (auto simp: extract_all_memories_parallel_def
        split: input_data.splits option.splits)
  then obtain dt ms where "out = build_output inp dt clock fallback ms"
    by (auto simp: extract_from_dict_def Let_def split: sum.splits)
  then show ?thesis by (simp add: build_output_def)
qed

theorem memory_summary_counts_witness:
  "\<exists>out. extract_all_memories_parallel example_parts [0, 1, 2] 7 ''session_7''
           (Dictionary example_input) = Inr out \<and>
         total_memories (summary out) = 3 \<and> total_procedural (summary out) = 1 \<and>
         total_semantic (summary out) = 2 \<and> total_episodic (summary out) = 0"
proof -
  have "extract_all_memories_parallel example_parts [0, 1, 2] 7 ''session_7''
           (Dictionary example_input) =
        Inr (build_output example_input ''chat'' 7 ''session_7''
           \<lparr>procedural = [''breathing exercise''],
            semantic = [''likes cricket'', ''studies in Pune''], episodic = []\<rparr>)"
    by code_simp
  moreover from this memory_summary_counts
  have "total_memories (summary (build_output example_input ''chat'' 7 ''session_7''
           \<lparr>procedural = [''breathing exercise''],
            semantic = [''likes cricket'', ''studies in Pune''], episodic = []\<rparr>)) =
        total_procedural (summary (build_output example_input ''chat'' 7 ''session_7''
           \<lparr>procedural = [''breathing exercise''],
            semantic = [''likes cricket'', ''studies in Pune''], episodic = []\<rparr>)) +
        total_semantic (summary (build_output example_input ''chat'' 7 ''session_7''
           \<lparr>procedural = [''breathing exercise''],
            semantic = [''likes cricket'', ''studies in Pune''], episodic = []\<rparr>)) +
        total_episodic (summary (build_output example_input ''chat'' 7 ''session_7''
           \<lparr>procedural = [''breathing exercise''],
            semantic = [''likes cricket'', ''studies in Pune''], episodic = []\<rparr>))"
    by blast
  ultimately show ?thesis by (simp add: build_output_def)
qed

section \<open>The retry loop\<close>

lemma attempt_once_first:
  "attempt_once m prompt 3 0 =
     (case attempt_list m prompt 0 of Some xs \<Rightarrow> Return xs | None \<Rightarrow> Retry 1)"
  by (simp add: attempt_once_def parse_attempt_def attempt_list_def
      split: sum.splits llm_response.splits parsed.splits)

lemma attempt_once_second:
  "attempt_once m prompt 3 (Suc 0) =
     (case attempt_list m prompt (Suc 0) of Some xs \<Rightarrow> Return xs | None \<Rightarrow> Retry 2)"
  by (simp add: attempt_once_def parse_attempt_def attempt_list_def
      split: sum.splits llm_response.splits parsed.splits)

lemma attempt_once_third:
  "attempt_once m prompt 3 2 =
     (case attempt_list m prompt 2 of
        Some xs \<Rightarrow> Return xs
      | None \<Rightarrow> if attempt_not_list m prompt 2 then Return [] else Raise ValueError)"
  by (simp add: attempt_once_def parse_attempt_def attempt_list_def attempt_not_list_def
      split: sum.splits llm_response.splits parsed.splits)

text \<open>
  The loop with the default budget of 3: at most three attempts, a sleep of 1 second
  after a failed first attempt and of 2 seconds after a failed second one
  (\<open>2 ** attempt\<close>), the list of the first attempt whose response parses to a list, and
  after a third failed attempt \<open>ValueError\<close>, unless the third response parses to JSON
  that is not a list.
\<close>

lemma get_llm_response_three_attempts:
  "get_llm_response m prompt 3 =
     (case attempt_list m prompt 0 of
        Some xs \<Rightarrow> (Inr xs, [])
      | None \<Rightarrow>
          (case attempt_list m prompt 1 of
             Some xs \<Rightarrow> (Inr xs, [1])
           | None \<Rightarrow>
               (case attempt_list m prompt 2 of
                  Some xs \<Rightarrow> (Inr xs, [1, 2])
                | None \<Rightarrow>
                    if attempt_not_list m prompt 2 then (Inr [], [1, 2])
                    else (Inl ValueError, [1, 2]))))"
proof -
  have "[0..<3] = [0, 1, 2 :: nat]" by (simp add: upt_rec)
  then show ?thesis
    by (simp add: get_llm_response_def attempt_once_first attempt_once_second
        attempt_once_third split: option.splits)
qed

text \<open>Three answers that are not JSON: the loop sleeps twice and raises.\<close>

lemma error_after_three_garbled:
  "get_llm_response always_garbled ''extract'' 3 = (Inl ValueError, [1, 2])"
  by code_simp

text \<open>
  C7. The claim wants an error raised after the final failed attempt, as the branches
  for a missing response, an unknown response structure, a decode error and any other
  exception do. The branch for JSON that is not a list does not: three responses that
  parse to a JSON object are three failed attempts, with sleeps of 1 and 2 seconds in
  between, and the loop ends by returning the empty list.
\<close>

theorem no_error_after_three_objects:
  "get_llm_response always_object ''extract'' 3 = (Inr [], [1, 2]) \<and>
   attempt_list always_object ''extract'' 0 = None \<and>
   attempt_list always_object ''extract'' 1 = None \<and>
   attempt_list always_object ''extract'' 2 = None"
  by code_simp

section \<open>Memories in the analyst's prompt\<close>

lemma group_rows_filter:
  "procedural_rows (group_rows rows g) =
     procedural_rows g @ filter (\<lambda>r. memory_type r = Some ''procedural'') rows \<and>
   semantic_rows (group_rows rows g) =
     semantic_rows g @ filter (\<lambda>r. memory_type r = Some ''semantic'') rows \<and>
   episodic_rows (group_rows rows g) =
     episodic_rows g @ filter (\<lambda>r. memory_type r = Some ''episodic'') rows"
  by (induction rows arbitrary: g) auto

lemma length_filter_select_memories:
  "length (filter (\<lambda>r. memory_type r = Some t) (select_memories d sid)) = stored_count d sid t"
proof -
  have "length (filter (\<lambda>r. memory_type r = Some t) (select_memories d sid)) =
        length (filter (\<lambda>r. memory_type r = Some t)
          (sort_key mem_created_at (filter (\<lambda>r. mem_session_id r = sid) (memories d))))"
    by (simp add: select_memories_def rev_filter [symmetric])
  also have "\<dots> = length (sort_key mem_created_at (filter (\<lambda>r. memory_type r = Some t)
          (filter (\<lambda>r. mem_session_id r = sid) (memories d))))"
    by (simp only: filter_sort)
  also have "\<dots> = stored_count d sid t"
    by (simp add: stored_count_def conj_commute)
  finally show ?thesis .
qed

lemma fetched_counts:
  assumes "supabase w" "\<not> select_memories_raises w" "sid \<noteq> []"
  shows "length (procedural_rows (fetch_session_memories w d sid)) = stored_count d sid ''procedural''"
    and "length (semantic_rows (fetch_session_memories w d sid)) = stored_count d sid ''semantic''"
    and "length (episodic_rows (fetch_session_memories w d sid)) = stored_count d sid ''episodic''"
  using assms
  by (simp_all add: fetch_session_memories_def group_rows_filter no_memories_def
      length_filter_select_memories)

lemma memory_context_counts:
  assumes "supabase w" and "\<not> select_memories_raises w"
    and "state_session_id state = Some sid" and "sid \<noteq> []"
    and "p = stored_count d sid ''procedural''"
    and "s = stored_count d sid ''semantic''"
    and "e = stored_count d sid ''episodic''"
  shows "memory_context (analyst_memories w d state) =
           (if 0 < p + s + e then
              [newline, newline] @ ''SESSION MEMORIES ('' @ str_of_nat (p + s + e) @ '' total):'' @ [newline] @
              ''- Procedural: '' @ str_of_nat p @ '' skills/techniques learned'' @ [newline] @
              ''- Semantic: '' @ str_of_nat s @ '' facts/preferences'' @ [newline] @
              ''- Episodic: '' @ str_of_nat e @ '' past experiences'' @ [newline]
            else [])"
proof -
  have g: "analyst_memories w d state = fetch_session_memories w d sid"
    using assms(3,4) by (simp add: analyst_memories_def)
  have "memory_context (fetch_session_memories w d sid) =
           (if 0 < p + s + e then
              [newline, newline] @ ''SESSION MEMORIES ('' @ str_of_nat (p + s + e) @ '' total):'' @ [newline] @
              ''- Procedural: '' @ str_of_nat p @ '' skills/techniques learned'' @ [newline] @
              ''- Semantic: '' @ str_of_nat s @ '' facts/preferences'' @ [newline] @
              ''- Episodic: '' @ str_of_nat e @ '' past experiences'' @ [newline]
            else [])"
    unfolding memory_context_def memory_count_def
      fetched_counts [OF assms(1,2,4)] assms(5-7) [symmetric]
    by (rule refl)
  with g show ?thesis by simp
qed

text \<open>
  C6, as amended. On a chat turn that carries a session id, with the store answering, the
  rows of \<open>memories\<close> stored for the session are fetched and those whose \<open>memory_type\<close> is
  procedural, semantic or episodic are grouped by it; rows of another type or of none are
  dropped. The analyst's prompt is the fixed text with the turn's message and contexts,
  and what it receives from the memories, after the activities and the voice context, is
  a summary: nothing when no row was grouped, otherwise the total and the number of rows
  of each category. The whole prompt is determined by the turn and these three numbers:
  the content of the memories is no part of it.
\<close>

theorem prompt_carries_memory_counts:
  assumes "supabase w" and "\<not> select_memories_raises w"
    and "state_session_id state = Some sid" and "sid \<noteq> []"
    and "p = length (filter (\<lambda>r. mem_session_id r = sid \<and> memory_type r = Some ''procedural'')
                 (memories d))"
    and "s = length (filter (\<lambda>r. mem_session_id r = sid \<and> memory_type r = Some ''semantic'')
                 (memories d))"
    and "e = length (filter (\<lambda>r. mem_session_id r = sid \<and> memory_type r = Some ''episodic'')
                 (memories d))"
  shows "combined_prompt w d state =
           ''Analyze this user'' @ [CHR 0x27] @
           ''s mental health state for Indian youth (16-25 years).'' @ [newline, newline] @
           ''User'' @ [CHR 0x27] @ ''s message: '' @ [CHR 0x22] @ user_message state @ [CHR 0x22] @
           [newline, newline] @ ''Recent context: '' @ take 500 (conversation_context state) @
           [newline, newline] @ ''Activities: '' @ activities_context state @ voice_context state @
           (if 0 < p + s + e then
              [newline, newline] @ ''SESSION MEMORIES ('' @ str_of_nat (p + s + e) @ '' total):'' @ [newline] @
              ''- Procedural: '' @ str_of_nat p @ '' skills/techniques learned'' @ [newline] @
              ''- Semantic: '' @ str_of_nat s @ '' facts/preferences'' @ [newline] @
              ''- Episodic: '' @ str_of_nat e @ '' past experiences'' @ [newline]
            else []) @
           [newline, newline] @ rest_of_prompt state"
proof -
  from assms(5-7) have "p = stored_count d sid ''procedural''"
    "s = stored_count d sid ''semantic''" "e = stored_count d sid ''episodic''"
    by (simp_all add: stored_count_def)
  from memory_context_counts [OF assms(1-4) this] show ?thesis
    unfolding combined_prompt_def by (simp only:)
qed

theorem prompt_carries_memory_counts_witness:
  "combined_prompt workflow_up mixed_store turn =
     ''Analyze this user'' @ [CHR 0x27] @
     ''s mental health state for Indian youth (16-25 years).'' @ [newline, newline] @
     ''User'' @ [CHR 0x27] @ ''s message: '' @ [CHR 0x22] @ ''hi'' @ [CHR 0x22] @
     [newline, newline] @ ''Recent context: '' @
     [newline, newline] @ ''Activities: none'' @
     [newline, newline] @ ''SESSION MEMORIES (1 total):'' @ [newline] @
     ''- Procedural: 0 skills/techniques learned'' @ [newline] @
     ''- Semantic: 1 facts/preferences'' @ [newline] @
     ''- Episodic: 0 past experiences'' @ [newline] @
     [newline, newline] @ ''Respond in JSON.''"
proof -
  have a: "supabase workflow_up" "\<not> select_memories_raises workflow_up"
    by (simp_all add: workflow_up_def)
  have b: "state_session_id turn = Some ''s1''" "''s1'' \<noteq> []" by (simp_all add: turn_def)
  have c: "0 = length (filter (\<lambda>r. mem_session_id r = ''s1'' \<and> memory_type r = Some ''procedural'')
                 (memories mixed_store))"
    "1 = length (filter (\<lambda>r. mem_session_id r = ''s1'' \<and> memory_type r = Some ''semantic'')
                 (memories mixed_store))"
    "0 = length (filter (\<lambda>r. mem_session_id r = ''s1'' \<and> memory_type r = Some ''episodic'')
                 (memories mixed_store))"
    by (simp_all add: mixed_store_def memory_record_def)
  from prompt_carries_memory_counts [OF a b c] show ?thesis by (simp add: turn_def)
qed

text \<open>
  The claim as stated fails: the memories themselves are not folded into the prompt. Two
  sessions whose stored memories differ in content get the same prompt, character for
  character.
\<close>

theorem prompt_ignores_memory_content:
  "combined_prompt workflow_up cricket_store turn = combined_prompt workflow_up exams_store turn \<and>
   map mem_content (memories cricket_store) = [Some ''likes cricket''] \<and>
   map mem_content (memories exams_store) = [Some ''is anxious about exams'']"
  by code_simp

section \<open>The Node backend\<close>

text \<open>A request that gets past the checks does call Gemini.\<close>

lemma chat_handler_calls_gemini:
  assumes "body req ''message'' = Some v" and "truthy v"
    and "elevenLabsApiKey env" and "geminiApiKey env"
  shows "hd (snd (chat_handler env req)) = GenerateContent (chat_prompt v)"
  using assms by (simp add: chat_handler_def Let_def split: sum.splits prod.splits)

text \<open>
  C10. A \<open>POST /chat\<close> whose body has no \<open>message\<close> field is answered with status 400 and
  the body \<open>{"error": "No message provided"}\<close>, and the handler makes no call to Gemini,
  to the speech synthesis or to anything after them.
\<close>

theorem no_message_is_400:
  assumes "body req ''message'' = None"
  shows "chat_handler env req =
           (\<lparr>status = 400, json = ErrorBody ''No message provided'' None\<rparr>, [])"
  using assms by (simp add: chat_handler_def truthy_def)

theorem no_message_is_400_witness:
  "chat_handler node_up \<lparr>body = Map.empty\<rparr> =
     (\<lparr>status = 400, json = ErrorBody ''No message provided'' None\<rparr>, []) \<and>
   fst (chat_handler node_up \<lparr>body = [''message'' \<mapsto> Str ''hi'']\<rparr>) =
     \<lparr>status = 200,
      json = MessagesBody [\<lparr>msg_text = ''Hello'', facialExpression = ''smile'',
        animation = ''Talking_0'', audio = Some ''UklGRg=='', lipsync = Some ''{}''\<rparr>]\<rparr>"
proof -
  have "body \<lparr>body = Map.empty\<rparr> ''message'' = None" by simp
  from no_message_is_400 [OF this, of node_up]
  show ?thesis by (simp add: chat_handler_def truthy_def node_up_def)
qed

end
